theory Spec2Isabelle
  imports Complex_Main "HOL-Library.Word"
begin

unbundle bit_operations_syntax

section \<open>WhirlyGlobe: textures on OpenGL ES, and the geometry manager's removal\<close>

text \<open>
  The development follows \<^verbatim>\<open>TextureGLES.cpp\<close>: the table functions that resolve a texture
  type to the OpenGL format triple, the PKM header reader \<^verbatim>\<open>ResolvePKM\<close>, and the two
  life-cycle methods \<^verbatim>\<open>createInRenderer\<close> and \<^verbatim>\<open>destroyInRenderer\<close>.

  Conventions of the embedding.
  \<^item> A \<^verbatim>\<open>RawDataRef\<close> is a shared pointer to a byte buffer: \<open>None\<close> is the null pointer,
    \<open>Some bytes\<close> a buffer whose \<^verbatim>\<open>getLen()\<close> is \<open>length bytes\<close>.
  \<^item> C \<^verbatim>\<open>int\<close> values are mathematical integers. The source multiplies widths and
    heights without a range check, and signed overflow has no defined result in C++; the
    theorems about such products say in their hypotheses that the product fits an \<^verbatim>\<open>int\<close>.
  \<^item> Dereferencing a null pointer is the fault \<open>NullDereference\<close>, a result of its own.
  \<^item> The OpenGL calls, the calls to the pooled texture-id allocator and the log lines are
    recorded, in program order, as a list of \<open>GLCall\<close>; a log line is recorded by its
    level and format string, without the arguments. The id the allocator hands out
    (the result of \<^verbatim>\<open>getTexID()\<close>, or what \<^verbatim>\<open>glGenTextures\<close> stores, which is nothing
    when it fails) and the result of \<^verbatim>\<open>Texture::processData()\<close> come from code outside
    this file and are parameters of \<open>createInRenderer\<close>.
\<close>

subsection \<open>Data\<close>

type_synonym RawData = "8 word list"
type_synonym RawDataRef = "RawData option"
type_synonym GLenum = int
type_synonym GLint = int
type_synonym GLuint = "32 word"

text \<open>
  The members of \<^verbatim>\<open>TextureType\<close> and \<^verbatim>\<open>WKSingleByteSource\<close> are the labels of the
  switch statements; \<open>TexTypeUnlisted\<close> and \<open>WKSingleUnlisted\<close> stand for any other
  value of the enumeration, which the \<^verbatim>\<open>default:\<close> labels receive.
\<close>

datatype TextureType =
    TexTypeUnsignedByte | TexTypeShort565 | TexTypeShort4444 | TexTypeShort5551
  | TexTypeSingleChannel | TexTypeDoubleChannel
  | TexTypeSingleFloat16 | TexTypeSingleFloat32
  | TexTypeDoubleFloat16 | TexTypeDoubleFloat32
  | TexTypeQuadFloat16 | TexTypeQuadFloat32 | TexTypeDepthFloat32
  | TexTypeSingleInt16 | TexTypeSingleUInt16 | TexTypeDoubleUInt16
  | TexTypeSingleUInt32 | TexTypeDoubleUInt32 | TexTypeQuadUInt32
  | TexTypeUnlisted

datatype WKSingleByteSource =
    WKSingleRed | WKSingleGreen | WKSingleBlue | WKSingleRGB | WKSingleAlpha
  | WKSingleUnlisted

datatype TextureInterpType = TexInterpNearest | TexInterpLinear

datatype WKLogLevel = Warn | Error

datatype fault = NullDereference

record TextureGLES =
  texData :: RawDataRef
  isPVRTC :: bool
  isPKM :: bool
  format :: TextureType
  byteSource :: WKSingleByteSource
  interpType :: TextureInterpType
  width :: int
  height :: int
  usesMipmaps :: bool
  wrapU :: bool
  wrapV :: bool
  isEmptyTexture :: bool
  glId :: GLuint

text \<open>
  \<^verbatim>\<open>RenderSetupInfoGLES\<close> is used only through its \<^verbatim>\<open>memManager\<close> pointer, which
  \<open>createInRenderer\<close> tests for null. The manager object itself is opaque here.
\<close>

type_synonym OpenGLMemManager = nat

record RenderSetupInfoGLES =
  memManager :: "OpenGLMemManager option"

datatype GLCall =
    MemGetTexID
  | MemRemoveTexID GLuint
  | GlGenTextures
  | GlBindTexture GLenum GLuint
  | GlTexParameteri GLenum GLenum GLint
  | GlCompressedTexImage2D GLenum GLint GLenum int int GLint int RawData
  | GlTexImage2D GLenum GLint GLint int int GLint GLenum GLenum RawDataRef
  | GlGenerateMipmap GLenum
  | CheckGLError string
  | WkLog string
  | WkLogLevel WKLogLevel string

subsection \<open>OpenGL ES 3.0 constants used by the file\<close>

abbreviation (input) GL_NONE :: int where "GL_NONE \<equiv> 0"
abbreviation (input) GL_TEXTURE_2D :: int where "GL_TEXTURE_2D \<equiv> 0x0DE1"
abbreviation (input) GL_NEAREST :: int where "GL_NEAREST \<equiv> 0x2600"
abbreviation (input) GL_LINEAR :: int where "GL_LINEAR \<equiv> 0x2601"
abbreviation (input) GL_NEAREST_MIPMAP_LINEAR :: int where "GL_NEAREST_MIPMAP_LINEAR \<equiv> 0x2702"
abbreviation (input) GL_TEXTURE_MAG_FILTER :: int where "GL_TEXTURE_MAG_FILTER \<equiv> 0x2800"
abbreviation (input) GL_TEXTURE_MIN_FILTER :: int where "GL_TEXTURE_MIN_FILTER \<equiv> 0x2801"
abbreviation (input) GL_TEXTURE_WRAP_S :: int where "GL_TEXTURE_WRAP_S \<equiv> 0x2802"
abbreviation (input) GL_TEXTURE_WRAP_T :: int where "GL_TEXTURE_WRAP_T \<equiv> 0x2803"
abbreviation (input) GL_REPEAT :: int where "GL_REPEAT \<equiv> 0x2901"
abbreviation (input) GL_CLAMP_TO_EDGE :: int where "GL_CLAMP_TO_EDGE \<equiv> 0x812F"

abbreviation (input) GL_UNSIGNED_BYTE :: int where "GL_UNSIGNED_BYTE \<equiv> 0x1401"
abbreviation (input) GL_SHORT :: int where "GL_SHORT \<equiv> 0x1402"
abbreviation (input) GL_UNSIGNED_SHORT :: int where "GL_UNSIGNED_SHORT \<equiv> 0x1403"
abbreviation (input) GL_UNSIGNED_INT :: int where "GL_UNSIGNED_INT \<equiv> 0x1405"
abbreviation (input) GL_FLOAT :: int where "GL_FLOAT \<equiv> 0x1406"
abbreviation (input) GL_HALF_FLOAT :: int where "GL_HALF_FLOAT \<equiv> 0x140B"
abbreviation (input) GL_UNSIGNED_SHORT_4_4_4_4 :: int where "GL_UNSIGNED_SHORT_4_4_4_4 \<equiv> 0x8033"
abbreviation (input) GL_UNSIGNED_SHORT_5_5_5_1 :: int where "GL_UNSIGNED_SHORT_5_5_5_1 \<equiv> 0x8034"
abbreviation (input) GL_UNSIGNED_SHORT_5_6_5 :: int where "GL_UNSIGNED_SHORT_5_6_5 \<equiv> 0x8363"

abbreviation (input) GL_DEPTH_COMPONENT :: int where "GL_DEPTH_COMPONENT \<equiv> 0x1902"
abbreviation (input) GL_RED :: int where "GL_RED \<equiv> 0x1903"
abbreviation (input) GL_ALPHA :: int where "GL_ALPHA \<equiv> 0x1906"
abbreviation (input) GL_RGB :: int where "GL_RGB \<equiv> 0x1907"
abbreviation (input) GL_RGBA :: int where "GL_RGBA \<equiv> 0x1908"
abbreviation (input) GL_RG :: int where "GL_RG \<equiv> 0x8227"
abbreviation (input) GL_RG_INTEGER :: int where "GL_RG_INTEGER \<equiv> 0x8228"
abbreviation (input) GL_RED_INTEGER :: int where "GL_RED_INTEGER \<equiv> 0x8D94"
abbreviation (input) GL_RGBA_INTEGER :: int where "GL_RGBA_INTEGER \<equiv> 0x8D99"

abbreviation (input) GL_RGB5_A1 :: int where "GL_RGB5_A1 \<equiv> 0x8057"
abbreviation (input) GL_RGBA8 :: int where "GL_RGBA8 \<equiv> 0x8058"
abbreviation (input) GL_R8 :: int where "GL_R8 \<equiv> 0x8229"
abbreviation (input) GL_RG8 :: int where "GL_RG8 \<equiv> 0x822B"
abbreviation (input) GL_R16F :: int where "GL_R16F \<equiv> 0x822D"
abbreviation (input) GL_R32F :: int where "GL_R32F \<equiv> 0x822E"
abbreviation (input) GL_RG16F :: int where "GL_RG16F \<equiv> 0x822F"
abbreviation (input) GL_RG32F :: int where "GL_RG32F \<equiv> 0x8230"
abbreviation (input) GL_R16I :: int where "GL_R16I \<equiv> 0x8233"
abbreviation (input) GL_R16UI :: int where "GL_R16UI \<equiv> 0x8234"
abbreviation (input) GL_R32UI :: int where "GL_R32UI \<equiv> 0x8236"
abbreviation (input) GL_RG16UI :: int where "GL_RG16UI \<equiv> 0x823A"
abbreviation (input) GL_RG32UI :: int where "GL_RG32UI \<equiv> 0x823C"
abbreviation (input) GL_RGBA32F :: int where "GL_RGBA32F \<equiv> 0x8814"
abbreviation (input) GL_DEPTH_COMPONENT32F :: int where "GL_DEPTH_COMPONENT32F \<equiv> 0x8CAC"
abbreviation (input) GL_RGB565 :: int where "GL_RGB565 \<equiv> 0x8D62"
abbreviation (input) GL_RGBA32UI :: int where "GL_RGBA32UI \<equiv> 0x8D70"

abbreviation (input) GL_COMPRESSED_R11_EAC :: int where "GL_COMPRESSED_R11_EAC \<equiv> 0x9270"
abbreviation (input) GL_COMPRESSED_SIGNED_R11_EAC :: int where "GL_COMPRESSED_SIGNED_R11_EAC \<equiv> 0x9271"
abbreviation (input) GL_COMPRESSED_RG11_EAC :: int where "GL_COMPRESSED_RG11_EAC \<equiv> 0x9272"
abbreviation (input) GL_COMPRESSED_SIGNED_RG11_EAC :: int where "GL_COMPRESSED_SIGNED_RG11_EAC \<equiv> 0x9273"
abbreviation (input) GL_COMPRESSED_RGB8_ETC2 :: int where "GL_COMPRESSED_RGB8_ETC2 \<equiv> 0x9274"
abbreviation (input) GL_COMPRESSED_RGB8_PUNCHTHROUGH_ALPHA1_ETC2 :: int
  where "GL_COMPRESSED_RGB8_PUNCHTHROUGH_ALPHA1_ETC2 \<equiv> 0x9276"
abbreviation (input) GL_COMPRESSED_RGBA8_ETC2_EAC :: int where "GL_COMPRESSED_RGBA8_ETC2_EAC \<equiv> 0x9278"

subsection \<open>The format resolver\<close>

fun getBytesPerRow :: "TextureType \<Rightarrow> int \<Rightarrow> int" where
  "getBytesPerRow TexTypeSingleChannel w = w * 1"
| "getBytesPerRow TexTypeUnsignedByte w = w * 1"
| "getBytesPerRow TexTypeDoubleChannel w = w * 2"
| "getBytesPerRow TexTypeSingleFloat16 w = w * 2"
| "getBytesPerRow TexTypeShort5551 w = w * 2"
| "getBytesPerRow TexTypeShort4444 w = w * 2"
| "getBytesPerRow TexTypeShort565 w = w * 2"
| "getBytesPerRow TexTypeSingleInt16 w = w * 2"
| "getBytesPerRow TexTypeSingleUInt16 w = w * 2"
| "getBytesPerRow TexTypeDoubleUInt16 w = w * 4"
| "getBytesPerRow TexTypeDoubleFloat16 w = w * 4"
| "getBytesPerRow TexTypeSingleFloat32 w = w * 4"
| "getBytesPerRow TexTypeDepthFloat32 w = w * 4"
| "getBytesPerRow TexTypeSingleUInt32 w = w * 4"
| "getBytesPerRow TexTypeDoubleFloat32 w = w * 8"
| "getBytesPerRow TexTypeDoubleUInt32 w = w * 8"
| "getBytesPerRow TexTypeQuadFloat16 w = w * 8"
| "getBytesPerRow TexTypeQuadFloat32 w = w * 16"
| "getBytesPerRow TexTypeQuadUInt32 w = w * 16"
| "getBytesPerRow TexTypeUnlisted w = GL_NONE"

fun mapInternalFormat :: "TextureType \<Rightarrow> WKSingleByteSource \<Rightarrow> GLint" where
  "mapInternalFormat TexTypeUnsignedByte bs = GL_RGBA8"
| "mapInternalFormat TexTypeShort5551 bs = GL_RGB5_A1"
| "mapInternalFormat TexTypeShort4444 bs = GL_RGBA"
| "mapInternalFormat TexTypeShort565 bs = GL_RGB565"
| "mapInternalFormat TexTypeSingleChannel bs =
     (case bs of
        WKSingleAlpha \<Rightarrow> GL_ALPHA
      | WKSingleRed \<Rightarrow> GL_R8
      | WKSingleGreen \<Rightarrow> GL_NONE
      | WKSingleBlue \<Rightarrow> GL_NONE
      | WKSingleRGB \<Rightarrow> GL_NONE
      | WKSingleUnlisted \<Rightarrow> GL_NONE)"
| "mapInternalFormat TexTypeDoubleChannel bs = GL_RG8"
| "mapInternalFormat TexTypeSingleFloat16 bs = GL_R16F"
| "mapInternalFormat TexTypeDoubleFloat16 bs = GL_RG16F"
| "mapInternalFormat TexTypeQuadFloat16 bs = GL_HALF_FLOAT"
| "mapInternalFormat TexTypeSingleFloat32 bs = GL_R32F"
| "mapInternalFormat TexTypeDoubleFloat32 bs = GL_RG32F"
| "mapInternalFormat TexTypeDepthFloat32 bs = GL_DEPTH_COMPONENT32F"
| "mapInternalFormat TexTypeQuadFloat32 bs = GL_RGBA32F"
| "mapInternalFormat TexTypeSingleInt16 bs = GL_R16I"
| "mapInternalFormat TexTypeSingleUInt16 bs = GL_R16UI"
| "mapInternalFormat TexTypeDoubleUInt16 bs = GL_RG16UI"
| "mapInternalFormat TexTypeSingleUInt32 bs = GL_R32UI"
| "mapInternalFormat TexTypeDoubleUInt32 bs = GL_RG32UI"
| "mapInternalFormat TexTypeQuadUInt32 bs = GL_RGBA32UI"
| "mapInternalFormat TexTypeUnlisted bs = GL_NONE"

fun mapGLFormat :: "TextureType \<Rightarrow> WKSingleByteSource \<Rightarrow> GLenum" where
  "mapGLFormat TexTypeSingleChannel bs =
     (case bs of
        WKSingleAlpha \<Rightarrow> GL_ALPHA
      | WKSingleRed \<Rightarrow> GL_RED
      | WKSingleGreen \<Rightarrow> GL_NONE
      | WKSingleBlue \<Rightarrow> GL_NONE
      | WKSingleRGB \<Rightarrow> GL_NONE
      | WKSingleUnlisted \<Rightarrow> GL_NONE)"
| "mapGLFormat TexTypeSingleFloat16 bs = GL_RED"
| "mapGLFormat TexTypeSingleFloat32 bs = GL_RED"
| "mapGLFormat TexTypeSingleInt16 bs = GL_RED_INTEGER"
| "mapGLFormat TexTypeSingleUInt16 bs = GL_RED_INTEGER"
| "mapGLFormat TexTypeSingleUInt32 bs = GL_RED_INTEGER"
| "mapGLFormat TexTypeDoubleFloat16 bs = GL_RG"
| "mapGLFormat TexTypeDoubleFloat32 bs = GL_RG"
| "mapGLFormat TexTypeDoubleChannel bs = GL_RG_INTEGER"
| "mapGLFormat TexTypeDoubleUInt16 bs = GL_RG_INTEGER"
| "mapGLFormat TexTypeDoubleUInt32 bs = GL_RG_INTEGER"
| "mapGLFormat TexTypeShort565 bs = GL_RGB"
| "mapGLFormat TexTypeUnsignedByte bs = GL_RGBA"
| "mapGLFormat TexTypeShort4444 bs = GL_RGBA"
| "mapGLFormat TexTypeShort5551 bs = GL_RGBA"
| "mapGLFormat TexTypeQuadFloat16 bs = GL_RGBA"
| "mapGLFormat TexTypeQuadFloat32 bs = GL_RGBA"
| "mapGLFormat TexTypeQuadUInt32 bs = GL_RGBA_INTEGER"
| "mapGLFormat TexTypeDepthFloat32 bs = GL_DEPTH_COMPONENT"
| "mapGLFormat TexTypeUnlisted bs = GL_NONE"

fun mapGLType :: "TextureType \<Rightarrow> WKSingleByteSource \<Rightarrow> GLenum" where
  "mapGLType TexTypeUnsignedByte bs = GL_UNSIGNED_BYTE"
| "mapGLType TexTypeSingleChannel bs = GL_UNSIGNED_BYTE"
| "mapGLType TexTypeDoubleChannel bs = GL_UNSIGNED_BYTE"
| "mapGLType TexTypeShort565 bs = GL_UNSIGNED_SHORT_5_6_5"
| "mapGLType TexTypeShort4444 bs = GL_UNSIGNED_SHORT_4_4_4_4"
| "mapGLType TexTypeShort5551 bs = GL_UNSIGNED_SHORT_5_5_5_1"
| "mapGLType TexTypeSingleFloat16 bs = GL_HALF_FLOAT"
| "mapGLType TexTypeDoubleFloat16 bs = GL_HALF_FLOAT"
| "mapGLType TexTypeQuadFloat16 bs = GL_HALF_FLOAT"
| "mapGLType TexTypeSingleFloat32 bs = GL_FLOAT"
| "mapGLType TexTypeDoubleFloat32 bs = GL_FLOAT"
| "mapGLType TexTypeQuadFloat32 bs = GL_FLOAT"
| "mapGLType TexTypeDepthFloat32 bs = GL_FLOAT"
| "mapGLType TexTypeSingleInt16 bs = GL_SHORT"
| "mapGLType TexTypeSingleUInt16 bs = GL_UNSIGNED_SHORT"
| "mapGLType TexTypeDoubleUInt16 bs = GL_UNSIGNED_SHORT"
| "mapGLType TexTypeSingleUInt32 bs = GL_UNSIGNED_INT"
| "mapGLType TexTypeDoubleUInt32 bs = GL_UNSIGNED_INT"
| "mapGLType TexTypeQuadUInt32 bs = GL_UNSIGNED_INT"
| "mapGLType TexTypeUnlisted bs = GL_NONE"

subsection \<open>The PKM header\<close>

text \<open>
  \<^verbatim>\<open>strncmp\<close> of the C library on byte strings: it compares at most \<open>n\<close> characters and
  stops after a NUL. A list that has ended reads as NUL, which is what follows the
  characters of a string literal.
\<close>

fun strncmp :: "RawData \<Rightarrow> RawData \<Rightarrow> nat \<Rightarrow> int" where
  "strncmp s1 s2 0 = 0"
| "strncmp s1 s2 (Suc n) =
     (let c1 = (case s1 of [] \<Rightarrow> 0 | c # _ \<Rightarrow> c);
          c2 = (case s2 of [] \<Rightarrow> 0 | c # _ \<Rightarrow> c)
      in if c1 \<noteq> c2 then uint c1 - uint c2
         else if c1 = 0 then 0
         else strncmp (tl s1) (tl s2) n)"

definition PKM_magic :: RawData where
  "PKM_magic = [0x50, 0x4B, 0x4D, 0x20]"

text \<open>
  The four reference parameters of \<^verbatim>\<open>ResolvePKM\<close>. The function receives their current
  values and returns the updated ones beside its result, the pointer to the payload:
  \<open>None\<close> is \<^verbatim>\<open>nullptr\<close>, \<open>Some p\<close> the bytes from \<^verbatim>\<open>&header[16]\<close> on.
\<close>

record PKMOut =
  pkmType :: int
  pkmSize :: int
  pkmWidth :: int
  pkmHeight :: int

definition ResolvePKM :: "RawDataRef \<Rightarrow> PKMOut \<Rightarrow> fault + (RawData option \<times> PKMOut)" where
  "ResolvePKM texDataRef out =
     (case texDataRef of
        None \<Rightarrow> Inl NullDereference
      | Some header \<Rightarrow>
          if length header < 16 then Inr (None, out)
          else if strncmp header PKM_magic 4 \<noteq> 0 then Inr (None, out)
          else
            let w = push_bit 8 (uint (header ! 8)) OR uint (header ! 9);
                h = push_bit 8 (uint (header ! 10)) OR uint (header ! 11);
                out1 = out\<lparr>pkmWidth := w, pkmHeight := h\<rparr>;
                ty = header ! 7;
                (out2, glType) =
                  (if ty = 0 then (out1, -1)
                   else if ty = 1 then (out1\<lparr>pkmSize := w * h div 2\<rparr>, GL_COMPRESSED_RGB8_ETC2)
                   else if ty = 2 then (out1, -1)
                   else if ty = 3 then (out1\<lparr>pkmSize := w * h\<rparr>, GL_COMPRESSED_RGBA8_ETC2_EAC)
                   else if ty = 4 then
                     (out1\<lparr>pkmSize := w * h div 2\<rparr>, GL_COMPRESSED_RGB8_PUNCHTHROUGH_ALPHA1_ETC2)
                   else if ty = 5 then (out1\<lparr>pkmSize := w * h div 2\<rparr>, GL_COMPRESSED_R11_EAC)
                   else if ty = 6 then (out1\<lparr>pkmSize := w * h\<rparr>, GL_COMPRESSED_RG11_EAC)
                   else if ty = 7 then
                     (out1\<lparr>pkmSize := w * h div 2\<rparr>, GL_COMPRESSED_SIGNED_R11_EAC)
                   else if ty = 8 then (out1\<lparr>pkmSize := w * h\<rparr>, GL_COMPRESSED_SIGNED_RG11_EAC)
                   else (out1, -1))
            in if glType = -1 then Inr (None, out2)
               else Inr (Some (drop 16 header), out2\<lparr>pkmType := glType\<rparr>))"

subsection \<open>Creating and destroying the texture\<close>

text \<open>
  The locals \<^verbatim>\<open>compressedType\<close>, \<^verbatim>\<open>size\<close>, \<^verbatim>\<open>thisWidth\<close>, \<^verbatim>\<open>thisHeight\<close> of the PKM
  branch are declared without a value. \<open>ResolvePKM\<close> assigns every one that is read after
  it returns a payload, so the value they start with does not reach the result.
\<close>

definition pkmLocals :: PKMOut where
  "pkmLocals = \<lparr>pkmType = 0, pkmSize = 0, pkmWidth = 0, pkmHeight = 0\<rparr>"

text \<open>
  Lines 284 to 355 of \<open>createInRenderer\<close>, the branch on the compression. The result
  \<open>(True, calls)\<close> falls through to the end of the function; \<open>(False, calls)\<close> is the
  early \<^verbatim>\<open>return false\<close> of the size check.
\<close>

definition uploadData :: "RawDataRef \<Rightarrow> TextureGLES \<Rightarrow> fault + (bool \<times> GLCall list)" where
  "uploadData convertedData tex =
     (if isPVRTC tex then Inr (True, [WkLogLevel Error ''PVRTC not supported''])
      else if isPKM tex then
        (case ResolvePKM (texData tex) pkmLocals of
           Inl f \<Rightarrow> Inl f
         | Inr (Some rawData, out) \<Rightarrow>
             Inr (True,
               [GlCompressedTexImage2D GL_TEXTURE_2D 0 (pkmType out)
                  (width tex) (height tex) 0 (pkmSize out) rawData,
                CheckGLError ''Texture::createInRenderer() glCompressedTexImage2D()''])
         | Inr (None, out) \<Rightarrow> Inr (True, [WkLogLevel Error ''Failed to resolve PKM'']))
      else
        let internalFormat = mapInternalFormat (format tex) (byteSource tex);
            glFormat = mapGLFormat (format tex) (byteSource tex);
            glType = mapGLType (format tex) (byteSource tex);
            bytesPerRow = getBytesPerRow (format tex) (width tex)
        in if internalFormat \<noteq> GL_NONE \<and> glFormat \<noteq> GL_NONE \<and> glType \<noteq> GL_NONE then
             let mismatch =
                   (case convertedData of
                      None \<Rightarrow> False
                    | Some d \<Rightarrow> int (length d) \<noteq> bytesPerRow * height tex);
                 tooFew =
                   (case convertedData of
                      None \<Rightarrow> False
                    | Some d \<Rightarrow> int (length d) < bytesPerRow * height tex);
                 warn =
                   (if mismatch then
                      [WkLogLevel Warn
                         ''Texture data size mismatch fmt=%d w=%d h=%d expected=%d actual=%d'']
                    else [])
             in if mismatch \<and> tooFew then Inr (False, warn)
                else Inr (True,
                  warn @
                  [WkLog ''fmt=%d sb=%d w=%d h=%d => if=%x f=%x t=%x b=%d'',
                   GlTexImage2D GL_TEXTURE_2D 0 internalFormat (width tex) (height tex) 0
                     glFormat glType convertedData,
                   CheckGLError ''Texture::createInRenderer() glTexImage2D()''])
           else Inr (True, [WkLogLevel Error ''Unknown texture type %d for GLES'']))"

text \<open>
  Lines 249 to 273: the allocation of the native texture through the pooled allocator when
  the setup information has one, through \<^verbatim>\<open>glGenTextures\<close> otherwise, and the filter and
  wrap parameters. \<open>newId\<close> is the value \<^verbatim>\<open>glId\<close> holds after the allocation.
\<close>

definition allocateAndConfigure ::
  "RenderSetupInfoGLES option \<Rightarrow> GLuint \<Rightarrow> TextureGLES \<Rightarrow> GLCall list" where
  "allocateAndConfigure setupInfo newId tex =
     (let interTypeGL = (if interpType tex = TexInterpNearest then GL_NEAREST else GL_LINEAR)
      in [(case setupInfo of
             None \<Rightarrow> GlGenTextures
           | Some si \<Rightarrow> (if memManager si \<noteq> None then MemGetTexID else GlGenTextures)),
          CheckGLError ''Texture::createInRenderer() glGenTextures()'',
          GlBindTexture GL_TEXTURE_2D newId,
          CheckGLError ''Texture::createInRenderer() glBindTexture()'',
          (if usesMipmaps tex
           then GlTexParameteri GL_TEXTURE_2D GL_TEXTURE_MIN_FILTER GL_NEAREST_MIPMAP_LINEAR
           else GlTexParameteri GL_TEXTURE_2D GL_TEXTURE_MIN_FILTER interTypeGL),
          GlTexParameteri GL_TEXTURE_2D GL_TEXTURE_MAG_FILTER interTypeGL,
          CheckGLError ''Texture::createInRenderer() glTexParameteri()'',
          GlTexParameteri GL_TEXTURE_2D GL_TEXTURE_WRAP_S
            (if wrapU tex then GL_REPEAT else GL_CLAMP_TO_EDGE),
          GlTexParameteri GL_TEXTURE_2D GL_TEXTURE_WRAP_T
            (if wrapV tex then GL_REPEAT else GL_CLAMP_TO_EDGE),
          CheckGLError ''Texture::createInRenderer() glTexParameteri()''])"

text \<open>
  \<open>createInRenderer setupInfo newId convertedData tex\<close> returns the boolean result, the
  texture object after the call and the calls issued. \<open>convertedData\<close> is what
  \<^verbatim>\<open>processData()\<close> returns at line 275.
\<close>

definition createInRenderer ::
  "RenderSetupInfoGLES option \<Rightarrow> GLuint \<Rightarrow> RawDataRef \<Rightarrow> TextureGLES
     \<Rightarrow> fault + (bool \<times> TextureGLES \<times> GLCall list)" where
  "createInRenderer setupInfo newId convertedData tex =
     (if texData tex = None \<and> \<not> isEmptyTexture tex then Inr (False, tex, [])
      else if glId tex \<noteq> 0 then Inr (True, tex, [])
      else
        let tex1 = tex\<lparr>glId := newId\<rparr>;
            calls1 = allocateAndConfigure setupInfo newId tex1
        in if texData tex1 \<noteq> None \<and> convertedData = None then
             Inr (False, tex1, calls1 @ [WkLogLevel Error ''TextureGLES::processData Failed''])
           else
             (case uploadData convertedData tex1 of
                Inl f \<Rightarrow> Inl f
              | Inr (False, calls2) \<Rightarrow> Inr (False, tex1, calls1 @ calls2)
              | Inr (True, calls2) \<Rightarrow>
                  Inr (True, tex1\<lparr>texData := None\<rparr>,
                       calls1 @ calls2 @
                       (if usesMipmaps tex1 then [GlGenerateMipmap GL_TEXTURE_2D] else []))))"

text \<open>
  \<open>destroyInRenderer\<close> calls \<^verbatim>\<open>removeTexID\<close> through the \<^verbatim>\<open>memManager\<close> pointer without
  testing it, and does not assign \<^verbatim>\<open>glId\<close>. The \<^verbatim>\<open>scene\<close> parameter is not used.
\<close>

definition destroyInRenderer ::
  "RenderSetupInfoGLES option \<Rightarrow> TextureGLES \<Rightarrow> fault + (TextureGLES \<times> GLCall list)" where
  "destroyInRenderer setupInfo tex =
     (case setupInfo of
        None \<Rightarrow> Inr (tex, [])
      | Some si \<Rightarrow>
          if glId tex \<noteq> 0 then
            (case memManager si of
               None \<Rightarrow> Inl NullDereference
             | Some m \<Rightarrow> Inr (tex, [MemRemoveTexID (glId tex)]))
          else Inr (tex, []))"

subsection \<open>Observations and sample values\<close>

text \<open>
  What a caller sees of a call of \<open>createInRenderer\<close>: the boolean it returned, the texture
  object afterwards and the calls it issued. A fault shows none of them.
\<close>

fun returned :: "fault + (bool \<times> TextureGLES \<times> GLCall list) \<Rightarrow> bool option" where
  "returned (Inl f) = None"
| "returned (Inr (ok, tex, calls)) = Some ok"

fun textureAfter :: "fault + (bool \<times> TextureGLES \<times> GLCall list) \<Rightarrow> TextureGLES option" where
  "textureAfter (Inl f) = None"
| "textureAfter (Inr (ok, tex, calls)) = Some tex"

fun issued :: "fault + (bool \<times> TextureGLES \<times> GLCall list) \<Rightarrow> GLCall list" where
  "issued (Inl f) = []"
| "issued (Inr (ok, tex, calls)) = calls"

text \<open>The calls that hand pixel data to OpenGL, and the call that gives a texture id back.\<close>

fun isUpload :: "GLCall \<Rightarrow> bool" where
  "isUpload (GlTexImage2D target level internalFormat w h border fmt ty dat) = True"
| "isUpload (GlCompressedTexImage2D target level internalFormat w h border imageSize dat) = True"
| "isUpload _ = False"

fun isRelease :: "GLCall \<Rightarrow> bool" where
  "isRelease (MemRemoveTexID i) = True"
| "isRelease _ = False"

text \<open>Two calls of \<open>destroyInRenderer\<close> in a row on the same object, with the calls of both.\<close>

definition destroyTwice ::
  "RenderSetupInfoGLES option \<Rightarrow> TextureGLES \<Rightarrow> fault + (TextureGLES \<times> GLCall list)" where
  "destroyTwice setupInfo tex =
     (case destroyInRenderer setupInfo tex of
        Inl f \<Rightarrow> Inl f
      | Inr (tex1, calls1) \<Rightarrow>
          (case destroyInRenderer setupInfo tex1 of
             Inl f \<Rightarrow> Inl f
           | Inr (tex2, calls2) \<Rightarrow> Inr (tex2, calls1 @ calls2)))"

text \<open>The 16-bit big-endian number at offset \<open>i\<close> of a buffer.\<close>

definition bigEndian16 :: "RawData \<Rightarrow> nat \<Rightarrow> int" where
  "bigEndian16 d i = 256 * uint (d ! i) + uint (d ! Suc i)"

text \<open>
  A PKM header and nothing after it: the magic, the version \<^verbatim>\<open>20\<close>, the sub-type \<open>ty\<close>
  in the byte at offset 7, and 64 for the width and the height.
\<close>

definition pkmHeader64 :: "8 word \<Rightarrow> RawData" where
  "pkmHeader64 ty =
     [0x50, 0x4B, 0x4D, 0x20, 0x32, 0x30, 0x00, ty,
      0x00, 0x40, 0x00, 0x40, 0x00, 0x40, 0x00, 0x40]"

definition bytes :: "nat \<Rightarrow> RawDataRef" where
  "bytes n = Some (replicate n 0)"

text \<open>An uncompressed 4 by 4 texture of type \<open>TexTypeUnsignedByte\<close>, not yet created.\<close>

definition plainTexture :: "RawDataRef \<Rightarrow> TextureGLES" where
  "plainTexture dat =
     \<lparr>texData = dat, isPVRTC = False, isPKM = False, format = TexTypeUnsignedByte,
      byteSource = WKSingleAlpha, interpType = TexInterpLinear, width = 4, height = 4,
      usesMipmaps = False, wrapU = False, wrapV = False, isEmptyTexture = False, glId = 0\<rparr>"

definition poolSetup :: RenderSetupInfoGLES where
  "poolSetup = \<lparr>memManager = Some 1\<rparr>"

subsection \<open>The geometry manager's table of scene representations\<close>

text \<open>
  \<^verbatim>\<open>GeometryManager.h\<close> declares \<^verbatim>\<open>GeomSceneRep\<close> with its sets \<^verbatim>\<open>drawIDs\<close> and
  \<^verbatim>\<open>selectIDs\<close> and its \<^verbatim>\<open>fade\<close> time, \<^verbatim>\<open>GeomSceneRep::clearContents\<close> and
  \<^verbatim>\<open>GeometryManager::removeGeometry\<close>, whose bodies are in another file. The table
  \<^verbatim>\<open>sceneReps\<close> is a list of entries in the order of the handles, and a set of handles is
  the list of its members in the order of iteration.
\<close>

type_synonym SimpleIdentity = "64 word"
type_synonym TimeInterval = real

text \<open>
  Modelled from the spec: the deferred change records that a removal emits (section 3,
  Deferred Change Record, and section 4.3): remove a batch, remove a selectable, fade a
  batch out over a duration from a start time, and the later erasure of a table entry.
  The classes of the change requests are not among the sources.
\<close>

datatype ChangeRequest =
    RemoveBatch SimpleIdentity
  | RemoveSelectable SimpleIdentity
  | FadeBatch SimpleIdentity TimeInterval TimeInterval
  | EraseEntry SimpleIdentity TimeInterval

text \<open>
  Modelled from the spec: the scene representation of section 3, with the fields that the
  header declares and a flag for the fade-out in flight that section 3 and section 5
  speak of. The bounding box plays no part in a removal and is left out.
\<close>

record GeomSceneRep =
  drawIDs :: "SimpleIdentity list"
  selectIDs :: "SimpleIdentity list"
  fade :: TimeInterval
  fading :: bool

type_synonym GeomSceneRepSet = "(SimpleIdentity \<times> GeomSceneRep) list"

text \<open>
  Modelled from the spec: \<^verbatim>\<open>clearContents\<close>, whose body is missing, after section 4.3
  (\<^verbatim>\<open>clearContents(handle, fadeDuration, now) -> changes\<close>) and the cancellation rule of
  section 5; the table is passed in and returned. With a fade duration of zero, or on an
  entry that is already fading, it emits the removal of every owned batch and selectable
  and erases the entry. With another duration it emits the fade of every batch and the
  later erasure, and the entry stays in the table, marked as fading.
\<close>

definition clearContents ::
  "GeomSceneRepSet \<Rightarrow> SimpleIdentity \<Rightarrow> TimeInterval \<Rightarrow> TimeInterval
     \<Rightarrow> GeomSceneRepSet \<times> ChangeRequest list" where
  "clearContents sceneReps handle fadeDuration now =
     (case map_of sceneReps handle of
        None \<Rightarrow> (sceneReps, [])
      | Some rep \<Rightarrow>
          if fadeDuration = 0 \<or> fading rep then
            (filter (\<lambda>(k, r). k \<noteq> handle) sceneReps,
             map RemoveBatch (drawIDs rep) @ map RemoveSelectable (selectIDs rep))
          else
            (map (\<lambda>(k, r). if k = handle then (k, r\<lparr>fading := True\<rparr>) else (k, r)) sceneReps,
             map (\<lambda>d. FadeBatch d now fadeDuration) (drawIDs rep) @
             [EraseEntry handle (now + fadeDuration)]))"

text \<open>
  Modelled from the spec: \<^verbatim>\<open>removeGeometry\<close>, whose body is missing, after section 4.4:
  it applies the removal of section 4.3 to each handle of the set in turn, with the fade
  time of the entry and the current time, and skips a handle that the table does not know.
\<close>

fun removeGeometry ::
  "SimpleIdentity list \<Rightarrow> TimeInterval \<Rightarrow> GeomSceneRepSet \<Rightarrow> GeomSceneRepSet \<times> ChangeRequest list"
  where
  "removeGeometry [] now sceneReps = (sceneReps, [])"
| "removeGeometry (h # hs) now sceneReps =
     (case map_of sceneReps h of
        None \<Rightarrow> removeGeometry hs now sceneReps
      | Some rep \<Rightarrow>
          (let (sceneReps1, changes1) = clearContents sceneReps h (fade rep) now;
               (sceneReps2, changes2) = removeGeometry hs now sceneReps1
           in (sceneReps2, changes1 @ changes2)))"

definition sampleRep :: GeomSceneRep where
  "sampleRep = \<lparr>drawIDs = [10, 11], selectIDs = [20], fade = 0, fading = False\<rparr>"

section \<open>Properties\<close>

subsection \<open>Auxiliary facts\<close>

lemma strncmp_Cons:
  "(strncmp (a # s1) (b # s2) (Suc n) = 0) = (a = b \<and> (a = 0 \<or> strncmp s1 s2 n = 0))"
  by (auto simp: word_uint_eq_iff)

text \<open>On a buffer of four bytes or more, the comparison with the magic is equality of the first four bytes.\<close>

lemma strncmp_PKM_magic:
  assumes "4 \<le> length d"
  shows "(strncmp d PKM_magic 4 = 0) = (take 4 d = PKM_magic)"
proof -
  from assms obtain a b c e r where d: "d = a # b # c # e # r"
    by (cases d; simp; rename_tac x xs; case_tac xs; simp; rename_tac y ys; case_tac ys; simp;
        rename_tac z zs; case_tac zs; simp)
  have four: "(4::nat) = Suc (Suc (Suc (Suc 0)))" by simp
  have "strncmp d PKM_magic 4 =
          strncmp (a # b # c # e # r) [0x50, 0x4B, 0x4D, 0x20] (Suc (Suc (Suc (Suc 0))))"
    unfolding d PKM_magic_def by (subst four) (rule refl)
  also have "(\<dots> = 0) = (a = 0x50 \<and> b = 0x4B \<and> c = 0x4D \<and> e = 0x20)"
    unfolding strncmp_Cons strncmp.simps(1) by auto
  finally show ?thesis by (auto simp: d PKM_magic_def)
qed

text \<open>Shifting one byte left by eight and or-ing another in is the big-endian number.\<close>

lemma shift_or_bytes:
  "push_bit 8 (uint (a :: 8 word)) OR uint (b :: 8 word) = 256 * uint a + uint b"
proof -
  have "push_bit 8 (uint a) + uint b = push_bit 8 (uint a) OR uint b"
  proof (rule disjunctive_add)
    fix n
    show "\<not> bit (push_bit 8 (uint a)) n \<or> \<not> bit (uint b) n"
      by (cases "n < 8") (auto simp: bit_push_bit_iff bit_uint_iff)
  qed
  then show ?thesis by (simp add: push_bit_eq_mult)
qed

lemma byte_le_8_cases:
  fixes t :: "8 word"
  assumes "t \<le> 8"
  shows "t \<in> {0, 1, 2, 3, 4, 5, 6, 7, 8}"
proof -
  from assms have "unat t \<le> 8" by (simp add: word_le_nat_alt)
  then have "unat t \<in> {0, 1, 2, 3, 4, 5, 6, 7, 8}" by auto
  then have "word_of_nat (unat t) \<in> (word_of_nat ` {0, 1, 2, 3, 4, 5, 6, 7, 8} :: 8 word set)"
    by (rule imageI)
  then show ?thesis by simp
qed

lemma PKMOut_overwrite:
  "out\<lparr>pkmWidth := w, pkmHeight := h, pkmSize := s, pkmType := k\<rparr> =
     \<lparr>pkmType = k, pkmSize = s, pkmWidth = w, pkmHeight = h\<rparr>"
  by (cases out) simp

lemma ResolvePKM_rejects:
  "length d < 16 \<or> take 4 d \<noteq> PKM_magic \<Longrightarrow> ResolvePKM (Some d) out = Inr (None, out)"
  by (cases "length d < 16") (simp_all add: ResolvePKM_def strncmp_PKM_magic)

text \<open>The parser on a buffer that passes the two checks, with the switch read as a table.\<close>

lemma ResolvePKM_accepts:
  assumes "16 \<le> length d" and "take 4 d = PKM_magic"
  shows "ResolvePKM (Some d) out =
     (let w = bigEndian16 d 8; h = bigEndian16 d 10;
          out1 = out\<lparr>pkmWidth := w, pkmHeight := h\<rparr>;
          ty = d ! 7
      in if ty = 1 then
           Inr (Some (drop 16 d), out1\<lparr>pkmSize := w * h div 2, pkmType := GL_COMPRESSED_RGB8_ETC2\<rparr>)
         else if ty = 3 then
           Inr (Some (drop 16 d), out1\<lparr>pkmSize := w * h, pkmType := GL_COMPRESSED_RGBA8_ETC2_EAC\<rparr>)
         else if ty = 4 then
           Inr (Some (drop 16 d),
                out1\<lparr>pkmSize := w * h div 2,
                     pkmType := GL_COMPRESSED_RGB8_PUNCHTHROUGH_ALPHA1_ETC2\<rparr>)
         else if ty = 5 then
           Inr (Some (drop 16 d), out1\<lparr>pkmSize := w * h div 2, pkmType := GL_COMPRESSED_R11_EAC\<rparr>)
         else if ty = 6 then
           Inr (Some (drop 16 d), out1\<lparr>pkmSize := w * h, pkmType := GL_COMPRESSED_RG11_EAC\<rparr>)
         else if ty = 7 then
           Inr (Some (drop 16 d),
                out1\<lparr>pkmSize := w * h div 2, pkmType := GL_COMPRESSED_SIGNED_R11_EAC\<rparr>)
         else if ty = 8 then
           Inr (Some (drop 16 d), out1\<lparr>pkmSize := w * h, pkmType := GL_COMPRESSED_SIGNED_RG11_EAC\<rparr>)
         else Inr (None, out1))"
proof -
  have m: "strncmp d PKM_magic 4 = 0"
    using assms by (simp add: strncmp_PKM_magic)
  show ?thesis
    using assms(1) by (simp add: ResolvePKM_def m shift_or_bytes bigEndian16_def Let_def)
qed

lemma pkmHeader64_facts:
  "16 \<le> length (pkmHeader64 ty)"
  "take 4 (pkmHeader64 ty) = PKM_magic"
  "64 = bigEndian16 (pkmHeader64 ty) 8"
  "64 = bigEndian16 (pkmHeader64 ty) 10"
  "pkmHeader64 ty ! 7 = ty"
  "drop 16 (pkmHeader64 ty) = []"
  by (simp_all add: pkmHeader64_def PKM_magic_def bigEndian16_def)

lemma plainTexture_sel:
  "glId (plainTexture dat) = 0" "texData (plainTexture dat) = dat"
  "\<not> isPVRTC (plainTexture dat)" "\<not> isPKM (plainTexture dat)"
  "format (plainTexture dat) = TexTypeUnsignedByte"
  "byteSource (plainTexture dat) = WKSingleAlpha"
  "width (plainTexture dat) = 4" "height (plainTexture dat) = 4"
  "\<not> usesMipmaps (plainTexture dat)" "\<not> isEmptyTexture (plainTexture dat)"
  by (simp_all add: plainTexture_def)

lemma uploadData_glId [simp]: "uploadData conv (tex\<lparr>glId := x\<rparr>) = uploadData conv tex"
  by (simp add: uploadData_def Let_def cong: option.case_cong sum.case_cong prod.case_cong)

lemma allocateAndConfigure_no_upload [simp]:
  "filter isUpload (allocateAndConfigure setupInfo newId tex) = []"
  by (simp add: allocateAndConfigure_def split: option.split)

lemma allocateAndConfigure_no_release [simp]:
  "filter isRelease (allocateAndConfigure setupInfo newId tex) = []"
  by (simp add: allocateAndConfigure_def split: option.split)

text \<open>
  A call on a texture without a native handle that passes the first test and whose data
  converted: the allocation, then the branch on the compression.
\<close>

lemma createInRenderer_pending:
  assumes "glId tex = 0" and "texData tex \<noteq> None \<or> isEmptyTexture tex"
    and "texData tex \<noteq> None \<longrightarrow> conv \<noteq> None"
  shows "createInRenderer setupInfo newId conv tex =
     (case uploadData conv tex of
        Inl f \<Rightarrow> Inl f
      | Inr (False, calls2) \<Rightarrow>
          Inr (False, tex\<lparr>glId := newId\<rparr>,
               allocateAndConfigure setupInfo newId (tex\<lparr>glId := newId\<rparr>) @ calls2)
      | Inr (True, calls2) \<Rightarrow>
          Inr (True, tex\<lparr>glId := newId, texData := None\<rparr>,
               allocateAndConfigure setupInfo newId (tex\<lparr>glId := newId\<rparr>) @ calls2 @
               (if usesMipmaps tex then [GlGenerateMipmap GL_TEXTURE_2D] else [])))"
  using assms by (auto simp: createInRenderer_def Let_def)

lemma uploadData_plain:
  assumes "\<not> isPVRTC tex" and "\<not> isPKM tex"
    and "mapInternalFormat (format tex) (byteSource tex) \<noteq> GL_NONE"
    and "mapGLFormat (format tex) (byteSource tex) \<noteq> GL_NONE"
    and "mapGLType (format tex) (byteSource tex) \<noteq> GL_NONE"
  shows "uploadData (Some d) tex =
     (if int (length d) < getBytesPerRow (format tex) (width tex) * height tex
      then Inr (False, [WkLogLevel Warn ''Texture data size mismatch fmt=%d w=%d h=%d expected=%d actual=%d''])
      else Inr (True,
        (if int (length d) \<noteq> getBytesPerRow (format tex) (width tex) * height tex
         then [WkLogLevel Warn ''Texture data size mismatch fmt=%d w=%d h=%d expected=%d actual=%d''] else []) @
        [WkLog ''fmt=%d sb=%d w=%d h=%d => if=%x f=%x t=%x b=%d'',
         GlTexImage2D GL_TEXTURE_2D 0 (mapInternalFormat (format tex) (byteSource tex))
           (width tex) (height tex) 0
           (mapGLFormat (format tex) (byteSource tex)) (mapGLType (format tex) (byteSource tex))
           (Some d),
         CheckGLError ''Texture::createInRenderer() glTexImage2D()'']))"
  using assms by (simp add: uploadData_def Let_def)

lemma uploadData_PVRTC:
  "isPVRTC tex \<Longrightarrow> uploadData conv tex = Inr (True, [WkLogLevel Error ''PVRTC not supported''])"
  by (simp add: uploadData_def)

lemma uploadData_PKM_unresolved:
  assumes "\<not> isPVRTC tex" and "isPKM tex"
    and "ResolvePKM (texData tex) pkmLocals = Inr (None, out')"
  shows "uploadData conv tex = Inr (True, [WkLogLevel Error ''Failed to resolve PKM''])"
  using assms by (simp add: uploadData_def)

lemma uploadData_unsupported:
  assumes "\<not> isPVRTC tex" and "\<not> isPKM tex"
    and "mapInternalFormat (format tex) (byteSource tex) = GL_NONE \<or>
         mapGLFormat (format tex) (byteSource tex) = GL_NONE \<or>
         mapGLType (format tex) (byteSource tex) = GL_NONE"
  shows "uploadData conv tex = Inr (True, [WkLogLevel Error ''Unknown texture type %d for GLES''])"
  using assms by (auto simp: uploadData_def Let_def)

lemma uploadData_no_data:
  assumes "isPKM tex \<longrightarrow> isPVRTC tex"
  shows "\<exists>calls. uploadData None tex = Inr (True, calls)"
  using assms by (auto simp: uploadData_def Let_def)

subsection \<open>The PKM header parser\<close>

text \<open>
  Claim C6. For every input byte sequence, \<open>ResolvePKM\<close> fails, returning the null pointer
  and leaving its reference parameters as they were, if the input is shorter than the 16
  bytes of the header or its first four bytes are not the magic \<^verbatim>\<open>PKM \<close>. Otherwise it
  stores the big-endian 16-bit number at offsets 8 and 9 as the width and the one at
  offsets 10 and 11 as the height, whatever the sub-type then decides.
\<close>

theorem ResolvePKM_header:
  "(length d < 16 \<or> take 4 d \<noteq> PKM_magic \<longrightarrow> ResolvePKM (Some d) out = Inr (None, out)) \<and>
   (16 \<le> length d \<and> take 4 d = PKM_magic \<longrightarrow>
      (\<exists>p out'. ResolvePKM (Some d) out = Inr (p, out') \<and>
         pkmWidth out' = bigEndian16 d 8 \<and> pkmHeight out' = bigEndian16 d 10))"
proof (intro conjI impI)
  assume "length d < 16 \<or> take 4 d \<noteq> PKM_magic"
  then show "ResolvePKM (Some d) out = Inr (None, out)"
    by (rule ResolvePKM_rejects)
next
  assume "16 \<le> length d \<and> take 4 d = PKM_magic"
  then show "\<exists>p out'. ResolvePKM (Some d) out = Inr (p, out') \<and>
         pkmWidth out' = bigEndian16 d 8 \<and> pkmHeight out' = bigEndian16 d 10"
    by (simp add: ResolvePKM_accepts Let_def)
qed

text \<open>
  A three-byte input and a full header whose first byte is wrong are rejected; a full
  header of sub-type 2 has its width and height read as 64.
\<close>

theorem ResolvePKM_header_witness:
  "ResolvePKM (Some [0x50, 0x4B, 0x4D]) pkmLocals = Inr (None, pkmLocals) \<and>
   ResolvePKM (Some (0x51 # tl (pkmHeader64 1))) pkmLocals = Inr (None, pkmLocals) \<and>
   (\<exists>p out'. ResolvePKM (Some (pkmHeader64 2)) pkmLocals = Inr (p, out') \<and>
       pkmWidth out' = 64 \<and> pkmHeight out' = 64)"
  using ResolvePKM_header [of "[0x50, 0x4B, 0x4D]" pkmLocals]
    ResolvePKM_header [of "0x51 # tl (pkmHeader64 1)" pkmLocals]
    ResolvePKM_header [of "pkmHeader64 2" pkmLocals]
  by (simp add: pkmHeader64_def PKM_magic_def bigEndian16_def)

text \<open>
  Claim C7. For every PKM input of 16 bytes or more with the magic, whose width times
  height fits an \<^verbatim>\<open>int\<close>, the byte at offset 7 selects the compression kind and the payload
  size: sub-types 1, 4, 5 and 7 give width times height divided by two, sub-types 3, 6
  and 8 give width times height, each with its own kind, and the payload starts after the
  header. Every other byte makes the parse fail with the width and height already stored;
  of the values 0 to 8 that the switch lists, these are exactly 0 and 2.
\<close>

theorem ResolvePKM_subtype:
  assumes "16 \<le> length d" and "take 4 d = PKM_magic"
    and "w = bigEndian16 d 8" and "h = bigEndian16 d 10"
    and "w * h \<le> 2147483647"
  shows
    "(d ! 7 = 1 \<longrightarrow> ResolvePKM (Some d) out = Inr (Some (drop 16 d),
        \<lparr>pkmType = GL_COMPRESSED_RGB8_ETC2, pkmSize = w * h div 2,
         pkmWidth = w, pkmHeight = h\<rparr>)) \<and>
     (d ! 7 = 3 \<longrightarrow> ResolvePKM (Some d) out = Inr (Some (drop 16 d),
        \<lparr>pkmType = GL_COMPRESSED_RGBA8_ETC2_EAC, pkmSize = w * h,
         pkmWidth = w, pkmHeight = h\<rparr>)) \<and>
     (d ! 7 = 4 \<longrightarrow> ResolvePKM (Some d) out = Inr (Some (drop 16 d),
        \<lparr>pkmType = GL_COMPRESSED_RGB8_PUNCHTHROUGH_ALPHA1_ETC2, pkmSize = w * h div 2,
         pkmWidth = w, pkmHeight = h\<rparr>)) \<and>
     (d ! 7 = 5 \<longrightarrow> ResolvePKM (Some d) out = Inr (Some (drop 16 d),
        \<lparr>pkmType = GL_COMPRESSED_R11_EAC, pkmSize = w * h div 2,
         pkmWidth = w, pkmHeight = h\<rparr>)) \<and>
     (d ! 7 = 6 \<longrightarrow> ResolvePKM (Some d) out = Inr (Some (drop 16 d),
        \<lparr>pkmType = GL_COMPRESSED_RG11_EAC, pkmSize = w * h,
         pkmWidth = w, pkmHeight = h\<rparr>)) \<and>
     (d ! 7 = 7 \<longrightarrow> ResolvePKM (Some d) out = Inr (Some (drop 16 d),
        \<lparr>pkmType = GL_COMPRESSED_SIGNED_R11_EAC, pkmSize = w * h div 2,
         pkmWidth = w, pkmHeight = h\<rparr>)) \<and>
     (d ! 7 = 8 \<longrightarrow> ResolvePKM (Some d) out = Inr (Some (drop 16 d),
        \<lparr>pkmType = GL_COMPRESSED_SIGNED_RG11_EAC, pkmSize = w * h,
         pkmWidth = w, pkmHeight = h\<rparr>)) \<and>
     (d ! 7 \<notin> {1, 3, 4, 5, 6, 7, 8} \<longrightarrow>
        ResolvePKM (Some d) out = Inr (None, out\<lparr>pkmWidth := w, pkmHeight := h\<rparr>)) \<and>
     (d ! 7 \<le> 8 \<longrightarrow> (d ! 7 \<notin> {1, 3, 4, 5, 6, 7, 8}) = (d ! 7 = 0 \<or> d ! 7 = 2))"
proof -
  note R = ResolvePKM_accepts [OF assms(1,2), of out, folded assms(3,4)]
  have c1: "d ! 7 = 1 \<longrightarrow> ResolvePKM (Some d) out = Inr (Some (drop 16 d),
        \<lparr>pkmType = GL_COMPRESSED_RGB8_ETC2, pkmSize = w * h div 2,
         pkmWidth = w, pkmHeight = h\<rparr>)"
    by (simp add: R PKMOut_overwrite)
  have c3: "d ! 7 = 3 \<longrightarrow> ResolvePKM (Some d) out = Inr (Some (drop 16 d),
        \<lparr>pkmType = GL_COMPRESSED_RGBA8_ETC2_EAC, pkmSize = w * h,
         pkmWidth = w, pkmHeight = h\<rparr>)"
    by (simp add: R PKMOut_overwrite)
  have c4: "d ! 7 = 4 \<longrightarrow> ResolvePKM (Some d) out = Inr (Some (drop 16 d),
        \<lparr>pkmType = GL_COMPRESSED_RGB8_PUNCHTHROUGH_ALPHA1_ETC2, pkmSize = w * h div 2,
         pkmWidth = w, pkmHeight = h\<rparr>)"
    by (simp add: R PKMOut_overwrite)
  have c5: "d ! 7 = 5 \<longrightarrow> ResolvePKM (Some d) out = Inr (Some (drop 16 d),
        \<lparr>pkmType = GL_COMPRESSED_R11_EAC, pkmSize = w * h div 2,
         pkmWidth = w, pkmHeight = h\<rparr>)"
    by (simp add: R PKMOut_overwrite)
  have c6: "d ! 7 = 6 \<longrightarrow> ResolvePKM (Some d) out = Inr (Some (drop 16 d),
        \<lparr>pkmType = GL_COMPRESSED_RG11_EAC, pkmSize = w * h,
         pkmWidth = w, pkmHeight = h\<rparr>)"
    by (simp add: R PKMOut_overwrite)
  have c7: "d ! 7 = 7 \<longrightarrow> ResolvePKM (Some d) out = Inr (Some (drop 16 d),
        \<lparr>pkmType = GL_COMPRESSED_SIGNED_R11_EAC, pkmSize = w * h div 2,
         pkmWidth = w, pkmHeight = h\<rparr>)"
    by (simp add: R PKMOut_overwrite)
  have c8: "d ! 7 = 8 \<longrightarrow> ResolvePKM (Some d) out = Inr (Some (drop 16 d),
        \<lparr>pkmType = GL_COMPRESSED_SIGNED_RG11_EAC, pkmSize = w * h,
         pkmWidth = w, pkmHeight = h\<rparr>)"
    by (simp add: R PKMOut_overwrite)
  have other: "d ! 7 \<notin> {1, 3, 4, 5, 6, 7, 8} \<longrightarrow>
        ResolvePKM (Some d) out = Inr (None, out\<lparr>pkmWidth := w, pkmHeight := h\<rparr>)"
    by (simp add: R)
  have two: "d ! 7 \<le> 8 \<longrightarrow> (d ! 7 \<notin> {1, 3, 4, 5, 6, 7, 8}) = (d ! 7 = 0 \<or> d ! 7 = 2)"
  proof
    assume "d ! 7 \<le> 8"
    then have "d ! 7 \<in> {0, 1, 2, 3, 4, 5, 6, 7, 8}" by (rule byte_le_8_cases)
    then show "(d ! 7 \<notin> {1, 3, 4, 5, 6, 7, 8}) = (d ! 7 = 0 \<or> d ! 7 = 2)"
      by (elim insertE emptyE) simp_all
  qed
  from c1 c3 c4 c5 c6 c7 c8 other two show ?thesis by blast
qed

text \<open>
  The scenario of the claim: a header of sub-type 1 for a 64 by 64 image resolves to the
  size 2048 and the kind \<^verbatim>\<open>GL_COMPRESSED_RGB8_ETC2\<close>; the same header with sub-type 2 fails.
\<close>

theorem ResolvePKM_subtype_witness:
  "ResolvePKM (Some (pkmHeader64 1)) pkmLocals =
     Inr (Some [], \<lparr>pkmType = GL_COMPRESSED_RGB8_ETC2, pkmSize = 2048,
                    pkmWidth = 64, pkmHeight = 64\<rparr>) \<and>
   ResolvePKM (Some (pkmHeader64 2)) pkmLocals =
     Inr (None, pkmLocals\<lparr>pkmWidth := 64, pkmHeight := 64\<rparr>)"
proof -
  have ov: "(64::int) * 64 \<le> 2147483647" by simp
  note a = ResolvePKM_subtype [OF pkmHeader64_facts(1-4) ov, of 1 pkmLocals, THEN conjunct1]
  note b = ResolvePKM_subtype [OF pkmHeader64_facts(1-4) ov, of 2 pkmLocals]
  have "ResolvePKM (Some (pkmHeader64 1)) pkmLocals =
     Inr (Some [], \<lparr>pkmType = GL_COMPRESSED_RGB8_ETC2, pkmSize = 2048,
                    pkmWidth = 64, pkmHeight = 64\<rparr>)"
    using a by (simp add: pkmHeader64_facts(5,6))
  moreover have "ResolvePKM (Some (pkmHeader64 2)) pkmLocals =
     Inr (None, pkmLocals\<lparr>pkmWidth := 64, pkmHeight := 64\<rparr>)"
    using b by (simp add: pkmHeader64_facts(5))
  ultimately show ?thesis by simp
qed

subsection \<open>The size check of the uncompressed upload\<close>

text \<open>
  Claim C3. For every uncompressed texture without a native handle whose format resolves
  to a supported triple, with dimensions that are not negative and a row size and an
  expected size \<open>getBytesPerRow (format tex) (width tex) * height tex\<close> that fit an \<^verbatim>\<open>int\<close>,
  \<open>createInRenderer\<close> compares the length of the converted buffer with the expected size
  before it uploads. A shorter buffer makes the call return false after the warning, with
  no upload among its calls; a longer one is warned about and then uploaded, and the call
  returns true.
\<close>

theorem createInRenderer_size_check:
  assumes "glId tex = 0" and "texData tex \<noteq> None \<or> isEmptyTexture tex"
    and "\<not> isPVRTC tex" and "\<not> isPKM tex"
    and "mapInternalFormat (format tex) (byteSource tex) \<noteq> GL_NONE"
    and "mapGLFormat (format tex) (byteSource tex) \<noteq> GL_NONE"
    and "mapGLType (format tex) (byteSource tex) \<noteq> GL_NONE"
    and "0 \<le> width tex" and "0 \<le> height tex"
    and "expected = getBytesPerRow (format tex) (width tex) * height tex"
    and "getBytesPerRow (format tex) (width tex) \<le> 2147483647" and "expected \<le> 2147483647"
  shows
    "(int (length d) < expected \<longrightarrow>
        createInRenderer setupInfo newId (Some d) tex =
          Inr (False, tex\<lparr>glId := newId\<rparr>,
               allocateAndConfigure setupInfo newId (tex\<lparr>glId := newId\<rparr>) @
               [WkLogLevel Warn ''Texture data size mismatch fmt=%d w=%d h=%d expected=%d actual=%d''])) \<and>
     (expected < int (length d) \<longrightarrow>
        createInRenderer setupInfo newId (Some d) tex =
          Inr (True, tex\<lparr>glId := newId, texData := None\<rparr>,
               allocateAndConfigure setupInfo newId (tex\<lparr>glId := newId\<rparr>) @
               [WkLogLevel Warn ''Texture data size mismatch fmt=%d w=%d h=%d expected=%d actual=%d'',
                WkLog ''fmt=%d sb=%d w=%d h=%d => if=%x f=%x t=%x b=%d'',
                GlTexImage2D GL_TEXTURE_2D 0 (mapInternalFormat (format tex) (byteSource tex))
                  (width tex) (height tex) 0
                  (mapGLFormat (format tex) (byteSource tex))
                  (mapGLType (format tex) (byteSource tex)) (Some d),
                CheckGLError ''Texture::createInRenderer() glTexImage2D()''] @
               (if usesMipmaps tex then [GlGenerateMipmap GL_TEXTURE_2D] else []))) \<and>
     filter isUpload
       (allocateAndConfigure setupInfo newId (tex\<lparr>glId := newId\<rparr>) @
        [WkLogLevel Warn ''Texture data size mismatch fmt=%d w=%d h=%d expected=%d actual=%d'']) = []"
proof -
  have c: "texData tex \<noteq> None \<longrightarrow> Some d \<noteq> None" by simp
  note P = createInRenderer_pending [OF assms(1,2) c, of setupInfo newId]
  note U = uploadData_plain [OF assms(3-7), of d, folded assms(10)]
  have short: "int (length d) < expected \<longrightarrow>
        createInRenderer setupInfo newId (Some d) tex =
          Inr (False, tex\<lparr>glId := newId\<rparr>,
               allocateAndConfigure setupInfo newId (tex\<lparr>glId := newId\<rparr>) @
               [WkLogLevel Warn ''Texture data size mismatch fmt=%d w=%d h=%d expected=%d actual=%d''])"
    by (simp add: P U)
  have long: "expected < int (length d) \<longrightarrow>
        createInRenderer setupInfo newId (Some d) tex =
          Inr (True, tex\<lparr>glId := newId, texData := None\<rparr>,
               allocateAndConfigure setupInfo newId (tex\<lparr>glId := newId\<rparr>) @
               [WkLogLevel Warn ''Texture data size mismatch fmt=%d w=%d h=%d expected=%d actual=%d'',
                WkLog ''fmt=%d sb=%d w=%d h=%d => if=%x f=%x t=%x b=%d'',
                GlTexImage2D GL_TEXTURE_2D 0 (mapInternalFormat (format tex) (byteSource tex))
                  (width tex) (height tex) 0
                  (mapGLFormat (format tex) (byteSource tex))
                  (mapGLType (format tex) (byteSource tex)) (Some d),
                CheckGLError ''Texture::createInRenderer() glTexImage2D()''] @
               (if usesMipmaps tex then [GlGenerateMipmap GL_TEXTURE_2D] else []))"
    by (simp add: P U)
  have none: "filter isUpload
       (allocateAndConfigure setupInfo newId (tex\<lparr>glId := newId\<rparr>) @
        [WkLogLevel Warn ''Texture data size mismatch fmt=%d w=%d h=%d expected=%d actual=%d'']) = []"
    by simp
  from short long none show ?thesis by blast
qed

text \<open>
  The scenario of the claim: for a 4 by 4 texture of type \<open>TexTypeUnsignedByte\<close> the
  expected size is 16; a buffer of 15 bytes fails and one of 17 bytes succeeds.
\<close>

theorem createInRenderer_size_check_witness:
  "getBytesPerRow TexTypeUnsignedByte 4 * 4 = 16 \<and>
   returned (createInRenderer (Some poolSetup) 7 (bytes 15) (plainTexture (bytes 15))) = Some False \<and>
   returned (createInRenderer (Some poolSetup) 7 (bytes 17) (plainTexture (bytes 17))) = Some True"
proof -
  have a: "returned (createInRenderer (Some poolSetup) 7 (bytes 15) (plainTexture (bytes 15))) =
      Some False"
    using createInRenderer_size_check
      [of "plainTexture (bytes 15)" 16 "replicate 15 0" "Some poolSetup" 7]
    by (simp add: plainTexture_sel bytes_def)
  have b: "returned (createInRenderer (Some poolSetup) 7 (bytes 17) (plainTexture (bytes 17))) =
      Some True"
    using createInRenderer_size_check
      [of "plainTexture (bytes 17)" 16 "replicate 17 0" "Some poolSetup" 7]
    by (simp add: plainTexture_sel bytes_def)
  from a b show ?thesis by simp
qed

text \<open>
  Claim C10. \<open>createInRenderer\<close> is not atomic when it fails on a short buffer: under the
  conditions of the size check, with a converted buffer shorter than the expected size
  and an allocator that hands out a non-zero id, the failing call leaves the object with
  that id as its native handle and with its pixel buffer still attached, and any further
  call of \<open>createInRenderer\<close> on the object returns true at once and issues no call.
\<close>

theorem createInRenderer_short_buffer_keeps_handle:
  assumes "glId tex = 0" and "texData tex \<noteq> None \<or> isEmptyTexture tex"
    and "\<not> isPVRTC tex" and "\<not> isPKM tex"
    and "mapInternalFormat (format tex) (byteSource tex) \<noteq> GL_NONE"
    and "mapGLFormat (format tex) (byteSource tex) \<noteq> GL_NONE"
    and "mapGLType (format tex) (byteSource tex) \<noteq> GL_NONE"
    and "0 \<le> width tex" and "0 \<le> height tex"
    and "expected = getBytesPerRow (format tex) (width tex) * height tex"
    and "getBytesPerRow (format tex) (width tex) \<le> 2147483647" and "expected \<le> 2147483647"
    and "int (length d) < expected"
    and "newId \<noteq> 0"
    and "tex1 = tex\<lparr>glId := newId\<rparr>"
  shows
    "createInRenderer setupInfo newId (Some d) tex =
       Inr (False, tex1, allocateAndConfigure setupInfo newId tex1 @
                         [WkLogLevel Warn ''Texture data size mismatch fmt=%d w=%d h=%d expected=%d actual=%d'']) \<and>
     glId tex1 = newId \<and> texData tex1 = texData tex \<and>
     createInRenderer setupInfo2 newId2 conv2 tex1 = Inr (True, tex1, [])"
proof -
  have c: "texData tex \<noteq> None \<longrightarrow> Some d \<noteq> None" by simp
  note P = createInRenderer_pending [OF assms(1,2) c, of setupInfo newId]
  note U = uploadData_plain [OF assms(3-7), of d, folded assms(10)]
  have first: "createInRenderer setupInfo newId (Some d) tex =
       Inr (False, tex1, allocateAndConfigure setupInfo newId tex1 @
                         [WkLogLevel Warn ''Texture data size mismatch fmt=%d w=%d h=%d expected=%d actual=%d''])"
    using assms(13) by (simp add: P U assms(15))
  have kept: "glId tex1 = newId \<and> texData tex1 = texData tex"
    by (simp add: assms(15))
  have again: "createInRenderer setupInfo2 newId2 conv2 tex1 = Inr (True, tex1, [])"
    using assms(2,14) by (simp add: createInRenderer_def assms(15))
  from first kept again show ?thesis by simp
qed

theorem createInRenderer_short_buffer_keeps_handle_witness:
  "returned (createInRenderer (Some poolSetup) 7 (bytes 15) (plainTexture (bytes 15))) = Some False \<and>
   createInRenderer None 8 (bytes 16) ((plainTexture (bytes 15))\<lparr>glId := 7\<rparr>) =
     Inr (True, (plainTexture (bytes 15))\<lparr>glId := 7\<rparr>, [])"
  using createInRenderer_short_buffer_keeps_handle
    [of "plainTexture (bytes 15)" 16 "replicate 15 0" 7 "(plainTexture (bytes 15))\<lparr>glId := 7\<rparr>"
        "Some poolSetup" None 8 "bytes 16"]
  by (simp add: plainTexture_sel bytes_def)

subsection \<open>Creating: repeated calls, empty textures, unsupported inputs\<close>

text \<open>
  Claim C2. A further call of \<open>createInRenderer\<close> on a texture that has its native handle
  is meant to be a no-op that returns true (\<^verbatim>\<open>// We'll only create this once\<close>,
  \<^verbatim>\<open>if (glId) return true;\<close>, lines 245 to 247). The test for missing data at line 242
  stands before it, and a successful call ends by releasing the pixel buffer (line 361).
  So on a 4 by 4 texture with 16 bytes the first call uploads and returns true, leaving
  the handle 7 and no buffer, and the next call on that object returns false. The same
  object with its buffer still attached, or marked empty, gets true from the next call.
\<close>

theorem createInRenderer_second_call_fails:
  "createInRenderer (Some poolSetup) 7 (bytes 16) (plainTexture (bytes 16)) =
     Inr (True, (plainTexture None)\<lparr>glId := 7\<rparr>,
          allocateAndConfigure (Some poolSetup) 7 ((plainTexture (bytes 16))\<lparr>glId := 7\<rparr>) @
          [WkLog ''fmt=%d sb=%d w=%d h=%d => if=%x f=%x t=%x b=%d'',
           GlTexImage2D GL_TEXTURE_2D 0 GL_RGBA8 4 4 0 GL_RGBA GL_UNSIGNED_BYTE (bytes 16),
           CheckGLError ''Texture::createInRenderer() glTexImage2D()'']) \<and>
   glId ((plainTexture None)\<lparr>glId := 7\<rparr>) \<noteq> 0 \<and>
   createInRenderer (Some poolSetup) 8 None ((plainTexture None)\<lparr>glId := 7\<rparr>) =
     Inr (False, (plainTexture None)\<lparr>glId := 7\<rparr>, []) \<and>
   createInRenderer (Some poolSetup) 8 (bytes 16) ((plainTexture (bytes 16))\<lparr>glId := 7\<rparr>) =
     Inr (True, (plainTexture (bytes 16))\<lparr>glId := 7\<rparr>, []) \<and>
   createInRenderer (Some poolSetup) 8 None ((plainTexture None)\<lparr>glId := 7, isEmptyTexture := True\<rparr>) =
     Inr (True, (plainTexture None)\<lparr>glId := 7, isEmptyTexture := True\<rparr>, [])"
  by (simp add: createInRenderer_def uploadData_def plainTexture_def bytes_def Let_def)

text \<open>
  Claim C8. For every texture marked empty, with no pixel data and no native handle yet,
  and an allocator that hands out a non-zero id, \<open>createInRenderer\<close> returns true and
  leaves the object with that non-zero id as its native handle. The texture is one that
  does not reach the PKM branch: it is not flagged PKM, or it is flagged PVRTC, which is
  tested first. (The PKM branch reads the header through the data pointer, which an
  empty texture does not have.)
\<close>

theorem createInRenderer_empty_texture:
  assumes "isEmptyTexture tex" and "texData tex = None" and "glId tex = 0"
    and "isPKM tex \<longrightarrow> isPVRTC tex" and "newId \<noteq> 0"
  shows "returned (createInRenderer setupInfo newId None tex) = Some True \<and>
         textureAfter (createInRenderer setupInfo newId None tex) =
           Some (tex\<lparr>glId := newId, texData := None\<rparr>) \<and>
         glId (tex\<lparr>glId := newId, texData := None\<rparr>) \<noteq> 0"
proof -
  have c: "texData tex \<noteq> None \<longrightarrow> (None :: RawDataRef) \<noteq> None"
    using assms(2) by simp
  have e: "texData tex \<noteq> None \<or> isEmptyTexture tex"
    using assms(1) by simp
  note P = createInRenderer_pending [OF assms(3) e c, of setupInfo newId]
  from uploadData_no_data [OF assms(4)] obtain calls
    where U: "uploadData None tex = Inr (True, calls)" ..
  show ?thesis
    using assms(5) by (simp add: P U)
qed

theorem createInRenderer_empty_texture_witness:
  "returned (createInRenderer (Some poolSetup) 7 None
      ((plainTexture None)\<lparr>isEmptyTexture := True\<rparr>)) = Some True \<and>
   textureAfter (createInRenderer (Some poolSetup) 7 None
      ((plainTexture None)\<lparr>isEmptyTexture := True\<rparr>)) =
     Some ((plainTexture None)\<lparr>isEmptyTexture := True, glId := 7\<rparr>)"
  using createInRenderer_empty_texture
    [of "(plainTexture None)\<lparr>isEmptyTexture := True\<rparr>" 7 "Some poolSetup"]
  by (simp add: plainTexture_def)

text \<open>
  Claim C4, as stated, says that the create call fails for a PVRTC texture and for a PKM
  texture whose header does not parse. Both calls below report the error and return true:
  a PVRTC texture with 16 bytes, and a PKM texture whose data is three bytes long.
\<close>

theorem createInRenderer_unsupported_compression_counterexample:
  "createInRenderer (Some poolSetup) 7 (bytes 16) ((plainTexture (bytes 16))\<lparr>isPVRTC := True\<rparr>) =
     Inr (True, (plainTexture None)\<lparr>isPVRTC := True, glId := 7\<rparr>,
          allocateAndConfigure (Some poolSetup) 7
            ((plainTexture (bytes 16))\<lparr>isPVRTC := True, glId := 7\<rparr>) @
          [WkLogLevel Error ''PVRTC not supported'']) \<and>
   createInRenderer (Some poolSetup) 7 (bytes 3) ((plainTexture (bytes 3))\<lparr>isPKM := True\<rparr>) =
     Inr (True, (plainTexture None)\<lparr>isPKM := True, glId := 7\<rparr>,
          allocateAndConfigure (Some poolSetup) 7
            ((plainTexture (bytes 3))\<lparr>isPKM := True, glId := 7\<rparr>) @
          [WkLogLevel Error ''Failed to resolve PKM''])"
  by (simp add: createInRenderer_def uploadData_def ResolvePKM_def plainTexture_def bytes_def
      allocateAndConfigure_def Let_def)

text \<open>
  Claim C4, amended. For every texture without a native handle that passes the first test
  and whose data converted, if it is marked PVRTC, or it is marked PKM and the header
  parser returns no payload, then \<open>createInRenderer\<close> does not fault: after the allocation
  it reports the error by a log line at the level \<open>Error\<close>, issues no upload and no
  release of the texture id, keeps the allocated id as the native handle, releases the
  pixel buffer and returns true.
\<close>

theorem createInRenderer_unsupported_compression:
  assumes "glId tex = 0" and "texData tex \<noteq> None \<or> isEmptyTexture tex"
    and "texData tex \<noteq> None \<longrightarrow> conv \<noteq> None"
    and "isPVRTC tex \<or> (isPKM tex \<and> (\<exists>out'. ResolvePKM (texData tex) pkmLocals = Inr (None, out')))"
  shows
    "createInRenderer setupInfo newId conv tex =
       Inr (True, tex\<lparr>glId := newId, texData := None\<rparr>,
            allocateAndConfigure setupInfo newId (tex\<lparr>glId := newId\<rparr>) @
            [WkLogLevel Error
               (if isPVRTC tex then ''PVRTC not supported'' else ''Failed to resolve PKM'')] @
            (if usesMipmaps tex then [GlGenerateMipmap GL_TEXTURE_2D] else [])) \<and>
     filter isUpload (issued (createInRenderer setupInfo newId conv tex)) = [] \<and>
     filter isRelease (issued (createInRenderer setupInfo newId conv tex)) = []"
proof -
  note P = createInRenderer_pending [OF assms(1-3), of setupInfo newId]
  have U: "uploadData conv tex =
      Inr (True, [WkLogLevel Error
               (if isPVRTC tex then ''PVRTC not supported'' else ''Failed to resolve PKM'')])"
  proof (cases "isPVRTC tex")
    case True
    then show ?thesis by (simp add: uploadData_PVRTC)
  next
    case False
    with assms(4) obtain out' where "isPKM tex"
      and "ResolvePKM (texData tex) pkmLocals = Inr (None, out')" by blast
    with False show ?thesis by (simp add: uploadData_PKM_unresolved)
  qed
  show ?thesis by (simp add: P U)
qed

theorem createInRenderer_unsupported_compression_witness:
  "returned (createInRenderer (Some poolSetup) 7 (bytes 16)
      ((plainTexture (bytes 16))\<lparr>isPVRTC := True\<rparr>)) = Some True \<and>
   returned (createInRenderer (Some poolSetup) 7 (Some (pkmHeader64 2))
      ((plainTexture (Some (pkmHeader64 2)))\<lparr>isPKM := True\<rparr>)) = Some True"
proof -
  have r: "ResolvePKM (Some (pkmHeader64 2)) pkmLocals =
      Inr (None, pkmLocals\<lparr>pkmWidth := 64, pkmHeight := 64\<rparr>)"
    by (simp add: ResolvePKM_accepts pkmHeader64_facts(1,2,5)
        pkmHeader64_facts(3,4) [symmetric] Let_def)
  have a: "returned (createInRenderer (Some poolSetup) 7 (bytes 16)
      ((plainTexture (bytes 16))\<lparr>isPVRTC := True\<rparr>)) = Some True"
    using createInRenderer_unsupported_compression
      [of "(plainTexture (bytes 16))\<lparr>isPVRTC := True\<rparr>" "bytes 16" "Some poolSetup" 7]
    by (simp add: plainTexture_def bytes_def)
  have b: "returned (createInRenderer (Some poolSetup) 7 (Some (pkmHeader64 2))
      ((plainTexture (Some (pkmHeader64 2)))\<lparr>isPKM := True\<rparr>)) = Some True"
    using createInRenderer_unsupported_compression
      [of "(plainTexture (Some (pkmHeader64 2)))\<lparr>isPKM := True\<rparr>" "Some (pkmHeader64 2)"
          "Some poolSetup" 7] r
    by (simp add: plainTexture_def)
  from a b show ?thesis ..
qed

subsection \<open>The single-channel format\<close>

text \<open>
  Claim C5, as stated, says that \<open>createInRenderer\<close> treats the sentinel \<^verbatim>\<open>GL_NONE\<close> as a
  hard failure. A single-channel 4 by 4 texture with the green source and 16 bytes resolves
  to the sentinel, and the call on it reports the error, uploads nothing and returns
  true, with the allocated id 7 as the handle and the pixel buffer released.
\<close>

theorem single_channel_sources_counterexample:
  "mapInternalFormat TexTypeSingleChannel WKSingleGreen = GL_NONE \<and>
   mapGLFormat TexTypeSingleChannel WKSingleGreen = GL_NONE \<and>
   createInRenderer (Some poolSetup) 7 (bytes 16)
     ((plainTexture (bytes 16))\<lparr>format := TexTypeSingleChannel, byteSource := WKSingleGreen\<rparr>) =
     Inr (True,
          (plainTexture None)\<lparr>format := TexTypeSingleChannel, byteSource := WKSingleGreen,
                                 glId := 7\<rparr>,
          allocateAndConfigure (Some poolSetup) 7
            ((plainTexture (bytes 16))\<lparr>format := TexTypeSingleChannel,
                                         byteSource := WKSingleGreen, glId := 7\<rparr>) @
          [WkLogLevel Error ''Unknown texture type %d for GLES''])"
  by (simp add: createInRenderer_def uploadData_def plainTexture_def bytes_def
      allocateAndConfigure_def Let_def)

text \<open>
  Claim C5, amended. For the single-channel texture type the resolver depends on the
  channel source: the alpha and red sources resolve to formats other than \<^verbatim>\<open>GL_NONE\<close>,
  while the green, blue and packed-RGB sources resolve to \<^verbatim>\<open>GL_NONE\<close> as internal format
  and as transfer format. \<open>createInRenderer\<close> performs no upload for a single-channel
  texture with one of these three sources (outside the PKM branch, which does not consult
  the resolver). Where the call reaches the uncompressed branch it reports the unknown
  texture type at the level \<open>Error\<close> and does not fail: it returns true, keeps the
  allocated id as the native handle and releases the pixel buffer.
\<close>

theorem single_channel_sources:
  "mapInternalFormat TexTypeSingleChannel WKSingleAlpha = GL_ALPHA \<and>
   mapInternalFormat TexTypeSingleChannel WKSingleRed = GL_R8 \<and>
   mapGLFormat TexTypeSingleChannel WKSingleAlpha = GL_ALPHA \<and>
   mapGLFormat TexTypeSingleChannel WKSingleRed = GL_RED \<and>
   (bs \<in> {WKSingleAlpha, WKSingleRed} \<longrightarrow>
      mapInternalFormat TexTypeSingleChannel bs \<noteq> GL_NONE \<and>
      mapGLFormat TexTypeSingleChannel bs \<noteq> GL_NONE \<and>
      mapGLType TexTypeSingleChannel bs \<noteq> GL_NONE) \<and>
   (bs \<in> {WKSingleGreen, WKSingleBlue, WKSingleRGB} \<longrightarrow>
      mapInternalFormat TexTypeSingleChannel bs = GL_NONE \<and>
      mapGLFormat TexTypeSingleChannel bs = GL_NONE) \<and>
   (format tex = TexTypeSingleChannel \<and>
    byteSource tex \<in> {WKSingleGreen, WKSingleBlue, WKSingleRGB} \<and> \<not> isPKM tex \<longrightarrow>
      filter isUpload (issued (createInRenderer setupInfo newId conv tex)) = []) \<and>
   (format tex = TexTypeSingleChannel \<and>
    byteSource tex \<in> {WKSingleGreen, WKSingleBlue, WKSingleRGB} \<and>
    \<not> isPKM tex \<and> \<not> isPVRTC tex \<and> glId tex = 0 \<and>
    (texData tex \<noteq> None \<or> isEmptyTexture tex) \<and> (texData tex \<noteq> None \<longrightarrow> conv \<noteq> None) \<longrightarrow>
      createInRenderer setupInfo newId conv tex =
        Inr (True, tex\<lparr>glId := newId, texData := None\<rparr>,
             allocateAndConfigure setupInfo newId (tex\<lparr>glId := newId\<rparr>) @
             [WkLogLevel Error ''Unknown texture type %d for GLES''] @
             (if usesMipmaps tex then [GlGenerateMipmap GL_TEXTURE_2D] else [])))"
proof -
  have valid: "bs \<in> {WKSingleAlpha, WKSingleRed} \<longrightarrow>
      mapInternalFormat TexTypeSingleChannel bs \<noteq> GL_NONE \<and>
      mapGLFormat TexTypeSingleChannel bs \<noteq> GL_NONE \<and>
      mapGLType TexTypeSingleChannel bs \<noteq> GL_NONE"
    by auto
  have sentinel: "bs \<in> {WKSingleGreen, WKSingleBlue, WKSingleRGB} \<longrightarrow>
      mapInternalFormat TexTypeSingleChannel bs = GL_NONE \<and>
      mapGLFormat TexTypeSingleChannel bs = GL_NONE"
    by auto
  have U: "uploadData c tex =
      Inr (True, [WkLogLevel Error
        (if isPVRTC tex then ''PVRTC not supported'' else ''Unknown texture type %d for GLES'')])"
    if "format tex = TexTypeSingleChannel"
      and "byteSource tex \<in> {WKSingleGreen, WKSingleBlue, WKSingleRGB}" and "\<not> isPKM tex"
    for c
  proof (cases "isPVRTC tex")
    case True
    then show ?thesis by (simp add: uploadData_PVRTC)
  next
    case False
    have "mapInternalFormat (format tex) (byteSource tex) = GL_NONE"
      using that(1,2) by auto
    with False that(3) show ?thesis by (simp add: uploadData_unsupported)
  qed
  have quiet: "filter isUpload (issued (createInRenderer setupInfo newId conv tex)) = []"
    if "format tex = TexTypeSingleChannel"
      and "byteSource tex \<in> {WKSingleGreen, WKSingleBlue, WKSingleRGB}" and "\<not> isPKM tex"
    using U [OF that] by (simp add: createInRenderer_def Let_def)
  have result: "createInRenderer setupInfo newId conv tex =
        Inr (True, tex\<lparr>glId := newId, texData := None\<rparr>,
             allocateAndConfigure setupInfo newId (tex\<lparr>glId := newId\<rparr>) @
             [WkLogLevel Error ''Unknown texture type %d for GLES''] @
             (if usesMipmaps tex then [GlGenerateMipmap GL_TEXTURE_2D] else []))"
    if "format tex = TexTypeSingleChannel"
      and "byteSource tex \<in> {WKSingleGreen, WKSingleBlue, WKSingleRGB}" and "\<not> isPKM tex"
      and "\<not> isPVRTC tex" and "glId tex = 0"
      and "texData tex \<noteq> None \<or> isEmptyTexture tex" and "texData tex \<noteq> None \<longrightarrow> conv \<noteq> None"
    using U [OF that(1-3), of conv] that(4)
    by (simp add: createInRenderer_pending [OF that(5-7)])
  from valid sentinel quiet result show ?thesis by simp
qed

theorem single_channel_sources_witness:
  "mapInternalFormat TexTypeSingleChannel WKSingleGreen = GL_NONE \<and>
   mapInternalFormat TexTypeSingleChannel WKSingleAlpha \<noteq> GL_NONE \<and>
   filter isUpload (issued (createInRenderer (Some poolSetup) 7 (bytes 16)
     ((plainTexture (bytes 16))\<lparr>format := TexTypeSingleChannel, byteSource := WKSingleGreen\<rparr>))) = [] \<and>
   returned (createInRenderer (Some poolSetup) 7 (bytes 16)
     ((plainTexture (bytes 16))\<lparr>format := TexTypeSingleChannel, byteSource := WKSingleGreen\<rparr>)) =
     Some True"
  using single_channel_sources [of WKSingleGreen
      "(plainTexture (bytes 16))\<lparr>format := TexTypeSingleChannel, byteSource := WKSingleGreen\<rparr>"
      "Some poolSetup" 7 "bytes 16"]
    single_channel_sources [of WKSingleAlpha
      "(plainTexture (bytes 16))\<lparr>format := TexTypeSingleChannel, byteSource := WKSingleGreen\<rparr>"
      "Some poolSetup" 7 "bytes 16"]
  by (simp add: plainTexture_def bytes_def)

subsection \<open>Destroying\<close>

text \<open>
  Claim C1, as stated, says that the second of two calls of \<open>destroyInRenderer\<close> in a row
  is a no-op that does not release the handle again. On a created texture with the
  handle 5 and a setup context with its allocator, the two calls hand the id 5 to
  \<^verbatim>\<open>removeTexID\<close> twice, and the handle of the object is 5 after both.
\<close>

theorem destroyInRenderer_twice_counterexample:
  "destroyTwice (Some poolSetup) ((plainTexture None)\<lparr>glId := 5\<rparr>) =
     Inr ((plainTexture None)\<lparr>glId := 5\<rparr>, [MemRemoveTexID 5, MemRemoveTexID 5])"
  by (simp add: destroyTwice_def destroyInRenderer_def poolSetup_def)

text \<open>
  Claim C1, amended. For every texture with a non-zero native handle and a setup context
  that holds the pooled allocator, each call of \<open>destroyInRenderer\<close> hands the handle to
  the allocator's \<^verbatim>\<open>removeTexID\<close> and leaves the object as it was, handle included; so two
  calls in a row hand the same handle over twice. The call does nothing when the handle
  is zero or when no setup context is given.
\<close>

theorem destroyInRenderer_releases:
  "(glId tex \<noteq> 0 \<and> memManager si = Some m \<longrightarrow>
      destroyInRenderer (Some si) tex = Inr (tex, [MemRemoveTexID (glId tex)]) \<and>
      destroyTwice (Some si) tex =
        Inr (tex, [MemRemoveTexID (glId tex), MemRemoveTexID (glId tex)])) \<and>
   (glId tex = 0 \<longrightarrow> destroyInRenderer setupInfo tex = Inr (tex, [])) \<and>
   destroyInRenderer None tex = Inr (tex, [])"
  by (simp add: destroyInRenderer_def destroyTwice_def split: option.split)

theorem destroyInRenderer_releases_witness:
  "destroyInRenderer (Some poolSetup) ((plainTexture None)\<lparr>glId := 5\<rparr>) =
     Inr ((plainTexture None)\<lparr>glId := 5\<rparr>, [MemRemoveTexID 5]) \<and>
   destroyInRenderer (Some poolSetup) (plainTexture None) = Inr (plainTexture None, [])"
  using destroyInRenderer_releases [of "(plainTexture None)\<lparr>glId := 5\<rparr>" poolSetup 1 None]
    destroyInRenderer_releases [of "plainTexture None" poolSetup 1 "Some poolSetup"]
  by (simp add: plainTexture_def poolSetup_def)

subsection \<open>Removing geometry twice\<close>

lemma clearContents_keeps_unknown:
  assumes "map_of sceneReps H = None"
  shows "map_of (fst (clearContents sceneReps h f now)) H = None"
proof -
  from assms have "H \<notin> fst ` set sceneReps"
    by (simp add: map_of_eq_None_iff)
  then have a: "H \<notin> fst ` set (filter (\<lambda>(k, r). k \<noteq> h) sceneReps)"
    by auto
  have "fst ` set (map (\<lambda>(k, r). if k = h then (k, r\<lparr>fading := True\<rparr>) else (k, r)) sceneReps)
          = fst ` set sceneReps"
    by (force simp: image_iff split: if_splits)
  with \<open>H \<notin> fst ` set sceneReps\<close>
  have b: "H \<notin> fst ` set (map (\<lambda>(k, r). if k = h then (k, r\<lparr>fading := True\<rparr>) else (k, r)) sceneReps)"
    by simp
  from a b show ?thesis
    using assms
    by (simp add: clearContents_def map_of_eq_None_iff del: set_filter set_map split: option.split)
qed

text \<open>A handle that the table does not know can be dropped from the set of handles.\<close>

lemma removeGeometry_skips_unknown:
  assumes "map_of sceneReps H = None"
  shows "removeGeometry hs now sceneReps = removeGeometry (removeAll H hs) now sceneReps"
  using assms
proof (induction hs arbitrary: sceneReps)
  case Nil
  then show ?case by simp
next
  case (Cons h hs)
  show ?case
  proof (cases "h = H")
    case True
    with Cons show ?thesis by simp
  next
    case False
    show ?thesis
    proof (cases "map_of sceneReps h")
      case None
      with False Cons show ?thesis by simp
    next
      case (Some rep)
      obtain reps1 c1 where cc: "clearContents sceneReps h (fade rep) now = (reps1, c1)"
        by (cases "clearContents sceneReps h (fade rep) now")
      have "map_of reps1 H = None"
        using clearContents_keeps_unknown [OF Cons.prems, of h "fade rep" now] cc by simp
      then have "removeGeometry hs now reps1 = removeGeometry (removeAll H hs) now reps1"
        by (rule Cons.IH)
      with False Some cc show ?thesis by simp
    qed
  qed
qed

text \<open>
  Claim C9. For every set of handles that contains a handle \<open>H\<close>, after a call of
  \<open>removeGeometry\<close> that has removed \<open>H\<close> from the table, a second call for \<open>H\<close> leaves the
  table as it is and emits no change record, and a second call for the whole set does
  what it does for the set without \<open>H\<close>: the unknown handle is skipped. The function has
  no error result.
\<close>

theorem removeGeometry_twice:
  assumes "removeGeometry hs now sceneReps = (sceneReps1, changes1)"
    and "H \<in> set hs"
    and "map_of sceneReps1 H = None"
  shows "removeGeometry [H] now2 sceneReps1 = (sceneReps1, []) \<and>
         removeGeometry hs now2 sceneReps1 = removeGeometry (removeAll H hs) now2 sceneReps1"
proof
  show "removeGeometry [H] now2 sceneReps1 = (sceneReps1, [])"
    using assms(3) by simp
  show "removeGeometry hs now2 sceneReps1 = removeGeometry (removeAll H hs) now2 sceneReps1"
    using assms(3) by (rule removeGeometry_skips_unknown)
qed

text \<open>
  An entry without a fade time is removed by the first call, with the removal of its two
  batches and its selectable; the second call emits nothing.
\<close>

theorem removeGeometry_twice_witness:
  "removeGeometry [1] 0 [(1, sampleRep)] =
     ([], [RemoveBatch 10, RemoveBatch 11, RemoveSelectable 20]) \<and>
   removeGeometry [1] 0 [] = ([], [])"
proof -
  have first: "removeGeometry [1] 0 [(1, sampleRep)] =
     ([], [RemoveBatch 10, RemoveBatch 11, RemoveSelectable 20])"
    by (simp add: clearContents_def sampleRep_def)
  have gone: "map_of ([] :: GeomSceneRepSet) 1 = None" by simp
  have one: "(1 :: SimpleIdentity) \<in> set [1]" by simp
  from removeGeometry_twice [OF first one gone, of 0]
  have "removeGeometry [1] 0 [] = ([], [])" by simp
  with first show ?thesis by simp
qed

end
